theory Spec2Isabelle
  imports Complex_Main
begin

section \<open>Home purchase analyzer: the projection engine\<close>

text \<open>
  The calculator functions of the web application (mortgage payment, amortization
  schedule, equity and investment projections, affordability ratios) and the analysis
  functions built on them (year-by-year financials, goal seek, winner and break-even).

  JavaScript numbers are modelled as \<open>real\<close>: arithmetic is exact, so rounding, overflow to
  \<open>Infinity\<close> and \<open>NaN\<close> are outside the model. Year counts, loan terms and timeframes are
  read with \<open>parseInt\<close> by the application and are modelled as \<open>int\<close>. Record fields carry
  a short prefix naming their record, since several objects of the source share field names
  (\<open>year\<close>, \<open>equity\<close>, \<open>portfolio\<close>).
\<close>

subsection \<open>Mortgage payment\<close>

text \<open>
  The guard and the zero-rate branch are as in the source. The payment formula of the last
  branch is exact here, while the source evaluates it in double precision: for a positive
  rate so small that \<open>1 + monthlyRate\<close> rounds to 1 (an annual rate of \<open>1e-15\<close> percent, say)
  the denominator is 0 and the source returns \<open>Infinity\<close>, and for very large rates the
  power overflows. The properties of the program proved below use the guard and the number
  of rows only; the exact formula is used in the subsection on the schedule in exact
  arithmetic.
\<close>

definition calculateMonthlyPayment :: "real \<Rightarrow> real \<Rightarrow> int \<Rightarrow> real" where
  "calculateMonthlyPayment princ annualRate years =
     (if princ \<le> 0 \<or> years \<le> 0 then 0
      else
        let monthlyRate = annualRate / 100 / 12;
            numPayments = years * 12
        in if monthlyRate = 0 then princ / of_int numPayments
           else princ * (monthlyRate * (1 + monthlyRate) ^ nat numPayments)
                  / ((1 + monthlyRate) ^ nat numPayments - 1))"

subsection \<open>Amortization schedule\<close>

record amortization_row =
  row_month :: int
  row_payment :: real
  row_principal :: real
  row_interest :: real
  row_balance :: real

text \<open>
  The body of the \<open>for (month = 1; month <= numPayments; month++)\<close> loop, over the list of
  the months still to run, with the running balance as its state.
\<close>

fun scheduleLoop :: "real \<Rightarrow> real \<Rightarrow> int \<Rightarrow> real \<Rightarrow> int list \<Rightarrow> amortization_row list" where
  "scheduleLoop monthlyRate monthlyPayment numPayments bal [] = []"
| "scheduleLoop monthlyRate monthlyPayment numPayments bal (m # ms) =
     (let interestPayment = bal * monthlyRate;
          principalPayment = monthlyPayment - interestPayment;
          bal1 = bal - principalPayment;
          bal2 = (if m = numPayments then 0 else bal1)
      in \<lparr> row_month = m, row_payment = monthlyPayment, row_principal = principalPayment,
           row_interest = interestPayment, row_balance = max 0 bal2 \<rparr>
         # scheduleLoop monthlyRate monthlyPayment numPayments bal2 ms)"

definition generateAmortizationSchedule :: "real \<Rightarrow> real \<Rightarrow> int \<Rightarrow> amortization_row list" where
  "generateAmortizationSchedule princ annualRate years =
     (let monthlyRate = annualRate / 100 / 12;
          numPayments = years * 12;
          monthlyPayment = calculateMonthlyPayment princ annualRate years
      in scheduleLoop monthlyRate monthlyPayment numPayments princ [1..numPayments])"

subsection \<open>Affordability ratios\<close>

record affordability =
  housingRatio :: real
  dtiRatio :: real
  withinGuidelines :: bool
  status :: string

definition calculateAffordabilityRatios :: "real \<Rightarrow> real \<Rightarrow> real \<Rightarrow> affordability" where
  "calculateAffordabilityRatios monthlyPayment monthlyIncome otherDebtPayments =
     (let hr = (monthlyPayment / monthlyIncome) * 100;
          totalDebt = monthlyPayment + otherDebtPayments;
          dti = (totalDebt / monthlyIncome) * 100;
          st = (if hr > 40 \<or> dti > 43 then ''warning''
                else if hr > 33 \<or> dti > 36 then ''caution''
                else if hr > 28 \<or> dti > 30 then ''good''
                else ''excellent'')
      in \<lparr> housingRatio = hr, dtiRatio = dti,
           withinGuidelines = (hr \<le> 28 \<and> dti \<le> 36), status = st \<rparr>)"

subsection \<open>Equity over time\<close>

record equity_snapshot =
  eq_year :: int
  eq_homeValue :: real
  eq_loanBalance :: real
  eq_principalPaid :: real
  eq_equity :: real

text \<open>
  The \<open>for (year = 1; year <= years; year++)\<close> loop of \<open>calculateEquityOverTime\<close>, over
  the list of the years still to run; the \<open>break\<close> on an exhausted schedule ends the list.
  The running \<open>homeValue\<close> is overwritten in every iteration, so it is no state.
\<close>

fun equityLoop :: "real \<Rightarrow> real \<Rightarrow> real \<Rightarrow> amortization_row list \<Rightarrow> int list
                    \<Rightarrow> equity_snapshot list" where
  "equityLoop purchasePrice princ appreciationRate schedule [] = []"
| "equityLoop purchasePrice princ appreciationRate schedule (y # ys) =
     (let monthIndex = y * 12 - 1
      in if monthIndex \<ge> int (length schedule) then []
         else
           let monthData = schedule ! nat monthIndex;
               loanBalance = row_balance monthData;
               homeValue = purchasePrice * (1 + appreciationRate / 100) ^ nat y;
               principalPaid = princ - loanBalance;
               downPayment = purchasePrice - princ;
               equity = downPayment + principalPaid + (homeValue - purchasePrice)
           in \<lparr> eq_year = y, eq_homeValue = homeValue, eq_loanBalance = loanBalance,
                eq_principalPaid = principalPaid, eq_equity = equity \<rparr>
              # equityLoop purchasePrice princ appreciationRate schedule ys)"

definition calculateEquityOverTime :: "real \<Rightarrow> real \<Rightarrow> real \<Rightarrow> int \<Rightarrow> real
                                         \<Rightarrow> equity_snapshot list" where
  "calculateEquityOverTime purchasePrice princ rate years appreciationRate =
     (let schedule = generateAmortizationSchedule princ rate years
      in equityLoop purchasePrice princ appreciationRate schedule [1..years])"

subsection \<open>Investment growth\<close>

record investment_snapshot =
  inv_year :: int
  inv_invested :: real
  inv_value :: real
  inv_gains :: real

text \<open>
  The inner loop over the months of one year: the contribution is added to the value and
  to the invested total, then the monthly return is applied to the value. The state is
  the pair (\<open>totalValue\<close>, \<open>totalInvested\<close>).
\<close>

fun investMonths :: "nat \<Rightarrow> real \<Rightarrow> real \<Rightarrow> real \<times> real \<Rightarrow> real \<times> real" where
  "investMonths 0 monthlyContribution monthlyRate st = st"
| "investMonths (Suc k) monthlyContribution monthlyRate (totalValue, totalInvested) =
     investMonths k monthlyContribution monthlyRate
       ((totalValue + monthlyContribution) * (1 + monthlyRate),
        totalInvested + monthlyContribution)"

fun investLoop :: "real \<Rightarrow> real \<Rightarrow> real \<times> real \<Rightarrow> int list \<Rightarrow> investment_snapshot list" where
  "investLoop monthlyContribution monthlyRate st [] = []"
| "investLoop monthlyContribution monthlyRate st (y # ys) =
     (let st1 = investMonths 12 monthlyContribution monthlyRate st;
          totalValue = fst st1;
          totalInvested = snd st1;
          gains = totalValue - totalInvested
      in \<lparr> inv_year = y, inv_invested = totalInvested, inv_value = totalValue,
           inv_gains = gains \<rparr>
         # investLoop monthlyContribution monthlyRate st1 ys)"

definition calculateInvestmentGrowth :: "real \<Rightarrow> real \<Rightarrow> real \<Rightarrow> int
                                           \<Rightarrow> investment_snapshot list" where
  "calculateInvestmentGrowth initialAmount monthlyContribution annualReturn years =
     (let monthlyRate = annualReturn / 100 / 12
      in investLoop monthlyContribution monthlyRate (initialAmount, initialAmount) [1..years])"

subsection \<open>Years to a financial goal\<close>

text \<open>The result of the goal seek: a number of years, or JavaScript's \<open>Infinity\<close>.\<close>

datatype goal_years = Years int | Never

text \<open>
  The \<open>while (balance < goalAmount && months < maxMonths)\<close> loop; its state is the balance
  and the month counter, and it returns the counter it stopped at.
\<close>

function goalLoop :: "real \<Rightarrow> real \<Rightarrow> real \<Rightarrow> nat \<Rightarrow> real \<Rightarrow> nat \<Rightarrow> nat" where
  "goalLoop goalAmount monthlyContribution monthlyRate maxMonths bal months =
     (if bal < goalAmount \<and> months < maxMonths
      then goalLoop goalAmount monthlyContribution monthlyRate maxMonths
             ((bal + monthlyContribution) * (1 + monthlyRate)) (Suc months)
      else months)"
  by pat_completeness auto
termination
  by (relation "measure (\<lambda>(g, c, r, mx, b, m). mx - m)") auto

definition calculateYearsToGoal :: "real \<Rightarrow> real \<Rightarrow> real \<Rightarrow> real \<Rightarrow> goal_years" where
  "calculateYearsToGoal startingAmount monthlyContribution annualReturn goalAmount =
     (if startingAmount \<ge> goalAmount then Years 0
      else if monthlyContribution \<le> 0 \<and> startingAmount < goalAmount then Never
      else
        let monthlyRate = annualReturn / 100 / 12;
            maxMonths = 100 * 12;
            months = goalLoop goalAmount monthlyContribution monthlyRate maxMonths
                       startingAmount 0
        in if months \<ge> maxMonths then Never
           else Years \<lceil>(of_nat months :: real) / 12\<rceil>)"

subsection \<open>Year-by-year financials of the buying scenario\<close>

record property_info =
  purchasePrice :: real
  downPaymentAmount :: real
  interestRate :: real
  loanTerm :: int

record income_info =
  annualIncome :: real
  currentPortfolio :: real

record calculations_info =
  loanAmount :: real
  totalMonthlyCost :: real

record scenario =
  propertyInfo :: property_info
  incomeInfo :: income_info
  calculations :: calculations_info

record income_adjustment =
  adj_year :: int
  adj_income :: real

record life_event =
  ev_year :: int
  ev_description :: string
  ev_type :: string
  ev_amount :: real

record yearly_record =
  yr_year :: int
  yr_annualIncome :: real
  yr_monthlyIncome :: real
  yr_monthlyExpenses :: real
  yr_monthlyDiscretionary :: real
  yr_monthlySavings :: real
  yr_oneTimeExpense :: real
  yr_portfolio :: real
  yr_equity :: real
  yr_netWorth :: real

record year_by_year =
  yearlyData :: "yearly_record list"
  equityData :: "equity_snapshot list"

text \<open>
  \<open>lifeEvents.forEach\<close>: the callback updates three variables of the enclosing loop, here
  the triple (\<open>oneTimeExpense\<close>, \<open>ongoingExpenseAdjustment\<close>, \<open>currentIncome\<close>).
\<close>

fun applyLifeEvents :: "int \<Rightarrow> life_event list \<Rightarrow> real \<times> real \<times> real \<Rightarrow> real \<times> real \<times> real" where
  "applyLifeEvents year [] st = st"
| "applyLifeEvents year (event # events) (oneTimeExpense, ongoingExpenseAdjustment, currentIncome) =
     applyLifeEvents year events
       (if ev_year event = year then
          (if ev_type event = ''one-time''
             then (oneTimeExpense + ev_amount event, ongoingExpenseAdjustment, currentIncome)
           else if ev_type event = ''ongoing''
             then (oneTimeExpense, ongoingExpenseAdjustment + ev_amount event / 12, currentIncome)
           else if ev_type event = ''income''
             then (oneTimeExpense, ongoingExpenseAdjustment, currentIncome + ev_amount event)
           else (oneTimeExpense, ongoingExpenseAdjustment, currentIncome))
        else (oneTimeExpense, ongoingExpenseAdjustment, currentIncome))"

text \<open>The twelve months of portfolio growth of one year.\<close>

fun portfolioMonths :: "nat \<Rightarrow> real \<Rightarrow> real \<Rightarrow> real \<Rightarrow> real" where
  "portfolioMonths 0 monthlySavings monthlyRate portfolio = portfolio"
| "portfolioMonths (Suc k) monthlySavings monthlyRate portfolio =
     portfolioMonths k monthlySavings monthlyRate
       ((portfolio + monthlySavings) * (1 + monthlyRate))"

text \<open>\<open>equityData[i]?.equity || 0\<close>: a missing entry reads as 0.\<close>

definition equityAt :: "equity_snapshot list \<Rightarrow> int \<Rightarrow> real" where
  "equityAt eqData i =
     (if 0 \<le> i \<and> i < int (length eqData) then eq_equity (eqData ! nat i) else 0)"

text \<open>
  One iteration of the loop over the years. The loop's state is the triple
  (\<open>currentIncome\<close>, \<open>portfolio\<close>, \<open>ongoingExpenseAdjustment\<close>); the iteration returns the
  record it pushes and the state it leaves. The income adjustments are the application's
  global \<open>appState.incomeAdjustments\<close>, passed as a parameter.
\<close>

definition yearStep :: "income_adjustment list \<Rightarrow> real \<Rightarrow> real \<Rightarrow> real \<Rightarrow> real \<Rightarrow> life_event list
                  \<Rightarrow> real \<Rightarrow> equity_snapshot list \<Rightarrow> real \<times> real \<times> real \<Rightarrow> int
                  \<Rightarrow> yearly_record \<times> (real \<times> real \<times> real)" where
  "yearStep incomeAdjustments monthlyHousing annualRaise baseExpenses savingsRate lifeEvents
            investmentReturn eqData st year =
     (let currentIncome = fst st;
          portfolio = fst (snd st);
          ongoingExpenseAdjustment = snd (snd st);
          income1 = currentIncome * (1 + annualRaise / 100);
          income2 = (case find (\<lambda>adj. adj_year adj = year) incomeAdjustments of
                       Some incomeAdj \<Rightarrow> adj_income incomeAdj
                     | None \<Rightarrow> income1);
          monthlyExpenses = monthlyHousing + baseExpenses + ongoingExpenseAdjustment;
          ev = applyLifeEvents year lifeEvents (0, ongoingExpenseAdjustment, income2);
          oneTimeExpense = fst ev;
          ongoing1 = fst (snd ev);
          income3 = snd (snd ev);
          finalMonthlyIncome = income3 / 12;
          monthlyDiscretionary = finalMonthlyIncome - monthlyExpenses;
          monthlySavings = (if monthlyDiscretionary > 0
                            then monthlyDiscretionary * savingsRate / 100 else 0);
          monthlyRate = investmentReturn / 100 / 12;
          portfolio1 = portfolioMonths 12 monthlySavings monthlyRate portfolio;
          portfolio2 = max 0 (portfolio1 - oneTimeExpense);
          equity = equityAt eqData (year - 1)
      in (\<lparr> yr_year = year, yr_annualIncome = income3, yr_monthlyIncome = finalMonthlyIncome,
            yr_monthlyExpenses = monthlyExpenses, yr_monthlyDiscretionary = monthlyDiscretionary,
            yr_monthlySavings = monthlySavings, yr_oneTimeExpense = oneTimeExpense,
            yr_portfolio = portfolio2, yr_equity = equity, yr_netWorth = portfolio2 + equity \<rparr>,
          (income3, portfolio2, ongoing1)))"

text \<open>The \<open>for (year = 1; year <= years; year++)\<close> loop, over the years still to run.\<close>

fun yearLoop :: "(real \<times> real \<times> real \<Rightarrow> int \<Rightarrow> yearly_record \<times> (real \<times> real \<times> real))
                  \<Rightarrow> real \<times> real \<times> real \<Rightarrow> int list \<Rightarrow> yearly_record list" where
  "yearLoop step st [] = []"
| "yearLoop step st (year # ys) =
     (case step st year of (rec, st1) \<Rightarrow> rec # yearLoop step st1 ys)"

definition calculateYearByYearFinancials ::
  "income_adjustment list \<Rightarrow> scenario \<Rightarrow> int \<Rightarrow> real \<Rightarrow> real \<Rightarrow> real \<Rightarrow> life_event list
     \<Rightarrow> real \<Rightarrow> real \<Rightarrow> year_by_year" where
  "calculateYearByYearFinancials incomeAdjustments scen years annualRaise baseExpenses savingsRate
       lifeEvents investmentReturn appreciationRate =
     (let monthlyHousing = totalMonthlyCost (calculations scen);
          startingPortfolio = max 0 (currentPortfolio (incomeInfo scen)
                                       - downPaymentAmount (propertyInfo scen));
          eqData = calculateEquityOverTime
                     (purchasePrice (propertyInfo scen))
                     (loanAmount (calculations scen))
                     (interestRate (propertyInfo scen))
                     (min years (loanTerm (propertyInfo scen)))
                     appreciationRate
      in \<lparr> yearlyData =
             yearLoop (yearStep incomeAdjustments monthlyHousing annualRaise baseExpenses
                         savingsRate lifeEvents investmentReturn eqData)
               (annualIncome (incomeInfo scen), startingPortfolio, 0) [1..years],
           equityData = eqData \<rparr>)"

subsection \<open>Winner and break-even year of a comparison\<close>

record net_worth_entry =
  nw_year :: int
  nw_equity :: real
  nw_portfolio :: real
  totalNetWorth :: real

text \<open>The fields of a scenario's results that \<open>determineWinner\<close> reads.\<close>

record scenario_results =
  netWorthData :: "net_worth_entry list"
  finalNetWorth :: real

record winner_result =
  winner :: string
  difference :: real
  breakEvenYear :: "int option"

text \<open>\<open>netWorthData[i]?.totalNetWorth || 0\<close>: a missing entry reads as 0.\<close>

definition netWorthAt :: "net_worth_entry list \<Rightarrow> int \<Rightarrow> real" where
  "netWorthAt nwData i =
     (if 0 \<le> i \<and> i < int (length nwData) then totalNetWorth (nwData ! nat i) else 0)"

text \<open>
  The break-even loop over the indices still to run: index 0 is skipped by \<open>continue\<close>, the
  first crossing assigns \<open>breakEvenYear\<close> and leaves by \<open>break\<close>; \<open>None\<close> is the initial
  \<open>null\<close>.
\<close>

fun breakEvenLoop :: "scenario_results \<Rightarrow> scenario_results \<Rightarrow> int list \<Rightarrow> int option" where
  "breakEvenLoop resultsA resultsB [] = None"
| "breakEvenLoop resultsA resultsB (i # is) =
     (let networthA = netWorthAt (netWorthData resultsA) i;
          networthB = netWorthAt (netWorthData resultsB) i
      in if i = 0 then breakEvenLoop resultsA resultsB is
         else
           let prevNetworthA = netWorthAt (netWorthData resultsA) (i - 1);
               prevNetworthB = netWorthAt (netWorthData resultsB) (i - 1)
           in if (prevNetworthA < prevNetworthB \<and> networthA \<ge> networthB) \<or>
                 (prevNetworthA > prevNetworthB \<and> networthA \<le> networthB)
              then Some (i + 1)
              else breakEvenLoop resultsA resultsB is)"

definition determineWinner :: "scenario_results \<Rightarrow> scenario_results \<Rightarrow> int \<Rightarrow> winner_result" where
  "determineWinner resultsA resultsB timeframe =
     (let finalDiff = finalNetWorth resultsA - finalNetWorth resultsB
      in \<lparr> winner = (if finalDiff > 0 then ''A'' else ''B''),
           difference = \<bar>finalDiff\<bar>,
           breakEvenYear = breakEvenLoop resultsA resultsB [0..timeframe - 1] \<rparr>)"

subsection \<open>The crossover of the specification\<close>

text \<open>
  The specification's wording of a crossover at index \<open>i\<close>, to be compared with the loop
  above: the sign of \<open>netWorthA - netWorthB\<close> flips relative to the previous pair, an exact
  tie in the current pair counting as a flip.
\<close>

definition signFlipsAt :: "scenario_results \<Rightarrow> scenario_results \<Rightarrow> int \<Rightarrow> bool" where
  "signFlipsAt resultsA resultsB i =
     (let d = netWorthAt (netWorthData resultsA) i - netWorthAt (netWorthData resultsB) i;
          dPrev = netWorthAt (netWorthData resultsA) (i - 1)
                    - netWorthAt (netWorthData resultsB) (i - 1)
      in (dPrev < 0 \<and> 0 \<le> d) \<or> (0 < dPrev \<and> d \<le> 0))"

text \<open>
  Two net-worth series over eight years that cross once, at year 7: A stays at 100, B
  grows by 16 a year from 11.
\<close>

definition crossoverA :: scenario_results where
  "crossoverA =
     \<lparr> netWorthData =
         map (\<lambda>y. \<lparr> nw_year = y, nw_equity = 60, nw_portfolio = 40, totalNetWorth = 100 \<rparr>)
           [1, 2, 3, 4, 5, 6, 7, 8],
       finalNetWorth = 100 \<rparr>"

definition crossoverB :: scenario_results where
  "crossoverB =
     \<lparr> netWorthData =
         map (\<lambda>y. \<lparr> nw_year = y, nw_equity = 16 * of_int y - 5, nw_portfolio = 0,
                    totalNetWorth = 16 * of_int y - 5 \<rparr>)
           [1, 2, 3, 4, 5, 6, 7, 8],
       finalNetWorth = 123 \<rparr>"

subsection \<open>Summaries of the life events of a year\<close>

text \<open>
  What the events of a list add up to in one year, by type, and the state the loop over
  the years is left in; these describe the loops above and are used to reason about them.
\<close>

definition oneTimeSum :: "life_event list \<Rightarrow> int \<Rightarrow> real" where
  "oneTimeSum evs y =
     sum_list (map ev_amount (filter (\<lambda>e. ev_year e = y \<and> ev_type e = ''one-time'') evs))"

definition ongoingSum :: "life_event list \<Rightarrow> int \<Rightarrow> real" where
  "ongoingSum evs y =
     sum_list (map (\<lambda>e. ev_amount e / 12)
                 (filter (\<lambda>e. ev_year e = y \<and> ev_type e = ''ongoing'') evs))"

definition incomeSum :: "life_event list \<Rightarrow> int \<Rightarrow> real" where
  "incomeSum evs y =
     sum_list (map ev_amount (filter (\<lambda>e. ev_year e = y \<and> ev_type e = ''income'') evs))"

fun yearState :: "(real \<times> real \<times> real \<Rightarrow> int \<Rightarrow> yearly_record \<times> (real \<times> real \<times> real))
                  \<Rightarrow> real \<times> real \<times> real \<Rightarrow> int list \<Rightarrow> real \<times> real \<times> real" where
  "yearState step st [] = st"
| "yearState step st (year # ys) = yearState step (snd (step st year)) ys"

subsection \<open>An example scenario\<close>

text \<open>
  The end-to-end scenario of the documentation: a 400000 purchase with 20 percent down, a
  30-year loan at 6.5 percent, 120000 of annual income and a portfolio of 100000.
\<close>

definition exampleScenario :: scenario where
  "exampleScenario =
     \<lparr> propertyInfo = \<lparr> purchasePrice = 400000, downPaymentAmount = 80000,
                         interestRate = 6.5, loanTerm = 30 \<rparr>,
       incomeInfo = \<lparr> annualIncome = 120000, currentPortfolio = 100000 \<rparr>,
       calculations = \<lparr> loanAmount = 320000, totalMonthlyCost = 2573 \<rparr> \<rparr>"

section \<open>Properties\<close>

subsection \<open>Loop lemmas for the amortization schedule\<close>

lemma length_scheduleLoop:
  "length (scheduleLoop r p n b ms) = length ms"
  by (induction ms arbitrary: b) (simp_all add: Let_def)

lemma length_generateAmortizationSchedule:
  "length (generateAmortizationSchedule princ annualRate years) = nat (years * 12)"
  by (simp add: generateAmortizationSchedule_def Let_def length_scheduleLoop)

lemma payment_scheduleLoop:
  "row \<in> set (scheduleLoop r p n b ms) \<Longrightarrow> row_payment row = p"
  by (induction ms arbitrary: b) (auto simp: Let_def)

lemma payment_generateAmortizationSchedule:
  "row \<in> set (generateAmortizationSchedule princ annualRate years)
   \<Longrightarrow> row_payment row = calculateMonthlyPayment princ annualRate years"
  by (auto simp: generateAmortizationSchedule_def Let_def dest: payment_scheduleLoop)

subsection \<open>Non-positive principal or term\<close>

text \<open>
  C7, as the specification states it, fails: with a principal of 0 and a term of one
  year the payment is 0, but the schedule has twelve rows, since only
  \<open>calculateMonthlyPayment\<close> guards against a non-positive principal and the schedule loop
  runs \<open>years * 12\<close> times whatever the principal is.
\<close>

theorem C7_nonpositive_principal_schedule_counterexample:
  "(0::real) \<le> 0 \<and> calculateMonthlyPayment 0 6 1 = 0
   \<and> length (generateAmortizationSchedule 0 6 1) = 12
   \<and> generateAmortizationSchedule 0 6 1 \<noteq> []"
proof -
  have "length (generateAmortizationSchedule 0 6 1) = 12"
    by (simp add: length_generateAmortizationSchedule)
  then show ?thesis by (auto simp: calculateMonthlyPayment_def)
qed

text \<open>
  C7 (amended): for every input with principal \<open>\<le> 0\<close> or term \<open>\<le> 0\<close> the monthly payment
  is 0; the schedule is empty when the term is \<open>\<le> 0\<close>; when the term is positive (and the
  principal is not) the schedule has \<open>years * 12\<close> rows, every one with payment 0.
\<close>

theorem C7_nonpositive_input:
  assumes "princ \<le> 0 \<or> years \<le> 0"
  shows "calculateMonthlyPayment princ annualRate years = 0
       \<and> (years \<le> 0 \<longrightarrow> generateAmortizationSchedule princ annualRate years = [])
       \<and> (0 < years \<longrightarrow>
            length (generateAmortizationSchedule princ annualRate years) = nat (years * 12)
            \<and> (\<forall>row \<in> set (generateAmortizationSchedule princ annualRate years).
                  row_payment row = 0))"
proof -
  have p: "calculateMonthlyPayment princ annualRate years = 0"
    using assms by (auto simp: calculateMonthlyPayment_def)
  have e: "years \<le> 0 \<Longrightarrow> generateAmortizationSchedule princ annualRate years = []"
    using length_generateAmortizationSchedule [of princ annualRate years] by simp
  show ?thesis
    using p e payment_generateAmortizationSchedule [of _ princ annualRate years]
    by (auto simp: length_generateAmortizationSchedule)
qed

theorem C7_nonpositive_input_witness:
  "calculateMonthlyPayment 200000 6 0 = 0 \<and> generateAmortizationSchedule 200000 6 0 = []
   \<and> calculateMonthlyPayment (-5) 6 1 = 0
   \<and> length (generateAmortizationSchedule (-5) 6 1) = 12
   \<and> row_payment (hd (generateAmortizationSchedule (-5) 6 1)) = 0"
proof -
  have a: "calculateMonthlyPayment 200000 6 0 = 0 \<and> generateAmortizationSchedule 200000 6 0 = []"
    using C7_nonpositive_input [of 200000 0 6] by simp
  have b: "calculateMonthlyPayment (-5) 6 1 = 0
           \<and> length (generateAmortizationSchedule (-5) 6 1) = 12
           \<and> (\<forall>row \<in> set (generateAmortizationSchedule (-5) 6 1). row_payment row = 0)"
    using C7_nonpositive_input [of "-5" 1 6] by simp
  then have "generateAmortizationSchedule (-5) 6 1 \<noteq> []" by auto
  then have "hd (generateAmortizationSchedule (-5) 6 1) \<in> set (generateAmortizationSchedule (-5) 6 1)"
    by simp
  with a b show ?thesis by blast
qed

subsection \<open>Affordability status\<close>

text \<open>
  C9: for a positive monthly income the two ratios are the payment, and the payment plus
  the other debt, as percentages of the income, and the status is decided on that pair in
  the order warning (housing ratio above 40 or debt-to-income above 43), caution (above 33
  or 36), good (above 28 or 30), else excellent, the first match winning.
\<close>

theorem C9_affordability_status:
  assumes "monthlyIncome > 0"
  shows "housingRatio (calculateAffordabilityRatios monthlyPayment monthlyIncome otherDebt)
           = monthlyPayment / monthlyIncome * 100
       \<and> dtiRatio (calculateAffordabilityRatios monthlyPayment monthlyIncome otherDebt)
           = (monthlyPayment + otherDebt) / monthlyIncome * 100
       \<and> status (calculateAffordabilityRatios monthlyPayment monthlyIncome otherDebt)
           = (let hr = housingRatio (calculateAffordabilityRatios monthlyPayment monthlyIncome otherDebt);
                  dti = dtiRatio (calculateAffordabilityRatios monthlyPayment monthlyIncome otherDebt)
              in if hr > 40 \<or> dti > 43 then ''warning''
                 else if hr > 33 \<or> dti > 36 then ''caution''
                 else if hr > 28 \<or> dti > 30 then ''good''
                 else ''excellent'')"
  by (simp add: calculateAffordabilityRatios_def Let_def)

theorem C9_affordability_status_witness:
  "(10000::real) > 0
   \<and> status (calculateAffordabilityRatios 2573 10000 0) = ''excellent''
   \<and> status (calculateAffordabilityRatios 2573 10000 600) = ''good''
   \<and> status (calculateAffordabilityRatios 3500 10000 0) = ''caution''
   \<and> status (calculateAffordabilityRatios 2573 10000 2000) = ''warning''"
  using C9_affordability_status [of 10000 2573 0] C9_affordability_status [of 10000 2573 600]
        C9_affordability_status [of 10000 3500 0] C9_affordability_status [of 10000 2573 2000]
  by (simp add: Let_def)

subsection \<open>The winner of a comparison\<close>

text \<open>
  C1, as the specification states it, fails on a tie: with equal final net worths the
  winner is \<open>B\<close>, since \<open>A\<close> wins only on a strictly positive difference.
\<close>

theorem C1_winner_tie_counterexample:
  "finalNetWorth \<lparr> netWorthData = [\<lparr> nw_year = 1, nw_equity = 3, nw_portfolio = 2, totalNetWorth = 5 \<rparr>],
                   finalNetWorth = 5 \<rparr>
     = finalNetWorth \<lparr> netWorthData = [\<lparr> nw_year = 1, nw_equity = 1, nw_portfolio = 4, totalNetWorth = 5 \<rparr>],
                       finalNetWorth = 5 \<rparr>
   \<and> winner (determineWinner
        \<lparr> netWorthData = [\<lparr> nw_year = 1, nw_equity = 3, nw_portfolio = 2, totalNetWorth = 5 \<rparr>],
          finalNetWorth = 5 \<rparr>
        \<lparr> netWorthData = [\<lparr> nw_year = 1, nw_equity = 1, nw_portfolio = 4, totalNetWorth = 5 \<rparr>],
          finalNetWorth = 5 \<rparr> 1) \<noteq> ''A''"
  by (simp add: determineWinner_def)

text \<open>
  C1 (amended): for every pair of scenario results and every timeframe, the declared
  winner is \<open>A\<close> when the final net worth of A is strictly larger than that of B, and \<open>B\<close>
  otherwise, so that a tie goes to \<open>B\<close>.
\<close>

theorem C1_winner:
  "winner (determineWinner resultsA resultsB timeframe) =
     (if finalNetWorth resultsA > finalNetWorth resultsB then ''A'' else ''B'')"
  by (simp add: determineWinner_def)

subsection \<open>Length of the equity projection\<close>

lemma equityLoop_full:
  "\<forall>y \<in> set ys. 0 < y \<and> y * 12 \<le> int (length schedule) \<Longrightarrow>
   map eq_year (equityLoop pp p a schedule ys) = ys"
  by (induction ys) (auto simp: Let_def)

lemma eq_year_calculateEquityOverTime:
  "map eq_year (calculateEquityOverTime pp p r years a) = [1..years]"
  unfolding calculateEquityOverTime_def Let_def
  by (rule equityLoop_full) (auto simp: length_generateAmortizationSchedule)

lemma length_calculateEquityOverTime:
  "length (calculateEquityOverTime pp p r years a) = nat years"
  using arg_cong [OF eq_year_calculateEquityOverTime [of pp p r years a], of length]
  by simp






subsection \<open>The year-by-year records\<close>

lemma length_yearLoop: "length (yearLoop step st ys) = length ys"
  by (induction ys arbitrary: st) (auto split: prod.splits)

lemma yr_year_yearLoop:
  "map yr_year (yearLoop (yearStep adjs h raise base sr evs ir eqData) st ys) = ys"
  by (induction ys arbitrary: st) (auto split: prod.splits simp: yearStep_def Let_def)

lemma yr_equity_yearLoop:
  "rec \<in> set (yearLoop (yearStep adjs h raise base sr evs ir eqData) st ys) \<Longrightarrow>
   yr_equity rec = equityAt eqData (yr_year rec - 1) \<and>
   yr_netWorth rec = yr_portfolio rec + yr_equity rec"
  by (induction ys arbitrary: st) (auto split: prod.splits simp: yearStep_def Let_def)

text \<open>
  C10: the buying scenario's yearly records are those of the years 1 to \<open>years\<close>, and every
  record of a year after the loan term reports an equity of 0 and a net worth equal to
  its portfolio: the equity series ends with the loan term, and a missing entry reads as 0.
\<close>

theorem C10_equity_after_loan_term:
  "map yr_year (yearlyData (calculateYearByYearFinancials adjs scen years raise base sr evs ir ar))
     = [1..years]
   \<and> (\<forall>rec \<in> set (yearlyData (calculateYearByYearFinancials adjs scen years raise base sr evs ir ar)).
        loanTerm (propertyInfo scen) < yr_year rec \<longrightarrow>
        yr_equity rec = 0 \<and> yr_netWorth rec = yr_portfolio rec)"
proof -
  let ?E = "calculateEquityOverTime (purchasePrice (propertyInfo scen)) (loanAmount (calculations scen))
              (interestRate (propertyInfo scen)) (min years (loanTerm (propertyInfo scen))) ar"
  have len: "length ?E = nat (min years (loanTerm (propertyInfo scen)))"
    by (rule length_calculateEquityOverTime)
  have z: "equityAt ?E (y - 1) = 0" if "loanTerm (propertyInfo scen) < y" for y
    using that len by (auto simp: equityAt_def)
  show ?thesis
    unfolding calculateYearByYearFinancials_def Let_def
    using z by (auto simp: yr_year_yearLoop dest!: yr_equity_yearLoop)
qed

theorem C10_equity_after_loan_term_witness:
  "yr_year (yearlyData (calculateYearByYearFinancials [] exampleScenario 40 3 2500 50 [] 8 3) ! 30) = 31
   \<and> yr_equity (yearlyData (calculateYearByYearFinancials [] exampleScenario 40 3 2500 50 [] 8 3) ! 30) = 0
   \<and> yr_netWorth (yearlyData (calculateYearByYearFinancials [] exampleScenario 40 3 2500 50 [] 8 3) ! 30)
       = yr_portfolio (yearlyData (calculateYearByYearFinancials [] exampleScenario 40 3 2500 50 [] 8 3) ! 30)"
proof -
  let ?Y = "yearlyData (calculateYearByYearFinancials [] exampleScenario 40 3 2500 50 [] 8 3)"
  note t = C10_equity_after_loan_term [of "[]" exampleScenario 40 3 2500 50 "[]" 8 3]
  from t have m: "map yr_year ?Y = [1..40]" by blast
  have l: "length ?Y = 40" using arg_cong [OF m, of length] by simp
  have "map yr_year ?Y ! 30 = [1..40] ! 30" using m by simp
  then have y: "yr_year (?Y ! 30) = 31" using l by simp
  have "?Y ! 30 \<in> set ?Y" using l by simp
  moreover have "loanTerm (propertyInfo exampleScenario) < yr_year (?Y ! 30)"
    using y by (simp add: exampleScenario_def)
  ultimately show ?thesis using t y by blast
qed

subsection \<open>Years to a goal\<close>

declare goalLoop.simps [simp del]

lemma goalLoop_stop:
  "\<not> (b < g \<and> m < mx) \<Longrightarrow> goalLoop g c r mx b m = m"
  by (subst goalLoop.simps) auto

lemma goalLoop_skip:
  "\<forall>k<j. ((\<lambda>x. (x + c) * (1 + r)) ^^ k) b < g \<Longrightarrow> m + j \<le> mx \<Longrightarrow>
   goalLoop g c r mx b m = goalLoop g c r mx (((\<lambda>x. (x + c) * (1 + r)) ^^ j) b) (m + j)"
proof (induction j arbitrary: b m)
  case 0
  then show ?case by simp
next
  case (Suc j)
  let ?f = "\<lambda>x. (x + c) * (1 + r)"
  from Suc.prems(1) have b: "b < g" by force
  have m: "m < mx" using Suc.prems(2) by simp
  have step: "goalLoop g c r mx b m = goalLoop g c r mx (?f b) (Suc m)"
    using b m by (subst goalLoop.simps) simp
  have "\<forall>k<j. (?f ^^ k) (?f b) < g"
  proof (intro allI impI)
    fix k assume "k < j"
    then have "(?f ^^ Suc k) b < g" using Suc.prems(1) by blast
    then show "(?f ^^ k) (?f b) < g" by (simp only: funpow_Suc_right o_apply)
  qed
  then have "goalLoop g c r mx (?f b) (Suc m) = goalLoop g c r mx ((?f ^^ j) (?f b)) (Suc m + j)"
    using Suc.prems(2) by (intro Suc.IH) simp_all
  also have "(?f ^^ j) (?f b) = (?f ^^ Suc j) b" by (simp only: funpow_Suc_right o_apply)
  finally show ?case using step by simp
qed

lemma goalLoop_le: "m \<le> mx \<Longrightarrow> goalLoop g c r mx b m \<le> mx"
proof (induction g c r mx b m rule: goalLoop.induct)
  case (1 g c r mx b m)
  show ?case
  proof (cases "b < g \<and> m < mx")
    case True
    then show ?thesis using 1 by (subst goalLoop.simps) simp
  next
    case False
    then show ?thesis using 1 by (simp add: goalLoop_stop)
  qed
qed

lemma goalLoop_first:
  assumes "\<forall>k<m. ((\<lambda>x. (x + c) * (1 + r)) ^^ k) b < g"
    and "m = mx \<or> g \<le> ((\<lambda>x. (x + c) * (1 + r)) ^^ m) b" and "m \<le> mx"
  shows "goalLoop g c r mx b 0 = m"
proof -
  have "goalLoop g c r mx b 0 = goalLoop g c r mx (((\<lambda>x. (x + c) * (1 + r)) ^^ m) b) (0 + m)"
    using assms(1,3) by (intro goalLoop_skip) simp_all
  then have "goalLoop g c r mx b 0 = goalLoop g c r mx (((\<lambda>x. (x + c) * (1 + r)) ^^ m) b) m"
    by simp
  also have "\<dots> = m" by (rule goalLoop_stop) (use assms(2) in auto)
  finally show ?thesis .
qed

text \<open>
  C6: the goal seek returns 0 years when the starting amount has reached the goal, and
  the sentinel \<open>Never\<close> (no number of years) when it has not and the contribution is not
  positive. Otherwise, with the balance after \<open>k\<close> months being \<open>k\<close> rounds of adding the
  contribution and then applying the monthly growth: when month \<open>m < 1200\<close> is the first
  whose balance reaches the goal the result is \<open>\<lceil>m / 12\<rceil>\<close> years, and when no month before
  the 1200th reaches it the loop stops at the cap and the result is \<open>Never\<close>. The loop is a
  total function and runs at most 1200 times.
\<close>

theorem C6_goal_seek:
  "(goalAmount \<le> startingAmount \<longrightarrow>
      calculateYearsToGoal startingAmount monthlyContribution annualReturn goalAmount = Years 0)
   \<and> (startingAmount < goalAmount \<and> monthlyContribution \<le> 0 \<longrightarrow>
      calculateYearsToGoal startingAmount monthlyContribution annualReturn goalAmount = Never)
   \<and> (startingAmount < goalAmount \<and> 0 < monthlyContribution \<longrightarrow>
       (\<forall>m < 1200.
          (\<forall>k<m. ((\<lambda>b. (b + monthlyContribution) * (1 + annualReturn / 100 / 12)) ^^ k) startingAmount
                    < goalAmount) \<and>
          goalAmount \<le> ((\<lambda>b. (b + monthlyContribution) * (1 + annualReturn / 100 / 12)) ^^ m) startingAmount
          \<longrightarrow> calculateYearsToGoal startingAmount monthlyContribution annualReturn goalAmount
                = Years \<lceil>real m / 12\<rceil>)
       \<and> ((\<forall>k<1200. ((\<lambda>b. (b + monthlyContribution) * (1 + annualReturn / 100 / 12)) ^^ k) startingAmount
                    < goalAmount)
          \<longrightarrow> calculateYearsToGoal startingAmount monthlyContribution annualReturn goalAmount = Never))
   \<and> (\<forall>n. Never \<noteq> Years n)
   \<and> goalLoop goalAmount monthlyContribution (annualReturn / 100 / 12) 1200 startingAmount 0 \<le> 1200"
proof -
  let ?f = "\<lambda>b. (b + monthlyContribution) * (1 + annualReturn / 100 / 12)"
  let ?L = "goalLoop goalAmount monthlyContribution (annualReturn / 100 / 12) 1200 startingAmount 0"
  have A: "?L = m" if "\<forall>k<m. (?f ^^ k) startingAmount < goalAmount"
      "goalAmount \<le> (?f ^^ m) startingAmount" "m < 1200" for m
    using that by (intro goalLoop_first) simp_all
  have B: "?L = 1200" if "\<forall>k<1200. (?f ^^ k) startingAmount < goalAmount"
    using that by (intro goalLoop_first) simp_all
  have C: "?L \<le> 1200" by (rule goalLoop_le) simp
  show ?thesis
    using A B C by (auto simp: calculateYearsToGoal_def Let_def)
qed


theorem C6_goal_seek_witness:
  "calculateYearsToGoal 1000 0 7 1000 = Years 0
   \<and> calculateYearsToGoal 500 0 7 1000 = Never
   \<and> calculateYearsToGoal 0 100 0 1250 = Years 2
   \<and> calculateYearsToGoal 0 1 0 1200 = Never
   \<and> goalLoop 1200 1 (0 / 100 / 12) 1200 0 0 \<le> 1200"
proof -
  have lin: "((\<lambda>b. (b + c) * (1 + 0 / 100 / 12)) ^^ k) 0 = real k * c" for c :: real and k
    by (induction k) (simp_all add: algebra_simps)
  have a: "calculateYearsToGoal 1000 0 7 1000 = Years 0"
    using C6_goal_seek [of 1000 1000 0 7] by simp
  have b: "calculateYearsToGoal 500 0 7 1000 = Never"
    using C6_goal_seek [of 1000 500 0 7] by simp
  have c: "calculateYearsToGoal 0 100 0 1250 = Years 2"
  proof -
    have "(0::real) < 1250 \<and> (0::real) < 100" by simp
    moreover have "(13::nat) < 1200" by simp
    moreover have "\<forall>k<13. ((\<lambda>b. (b + 100) * (1 + 0 / 100 / 12)) ^^ k) 0 < (1250::real)"
      by (simp only: lin) auto
    moreover have "(1250::real) \<le> ((\<lambda>b. (b + 100) * (1 + 0 / 100 / 12)) ^^ 13) 0"
      by (simp only: lin)
    ultimately have "calculateYearsToGoal 0 100 0 1250 = Years \<lceil>real 13 / 12\<rceil>"
      using C6_goal_seek [of 1250 0 100 0] by blast
    then show ?thesis by simp
  qed
  have d: "calculateYearsToGoal 0 1 0 1200 = Never"
  proof -
    have "(0::real) < 1200 \<and> (0::real) < 1" by simp
    moreover have "\<forall>k<1200. ((\<lambda>b. (b + 1) * (1 + 0 / 100 / 12)) ^^ k) 0 < (1200::real)"
      by (simp only: lin) auto
    ultimately show ?thesis
      using C6_goal_seek [of 1200 0 1 0] by blast
  qed
  have e: "goalLoop 1200 1 (0 / 100 / 12) 1200 0 0 \<le> 1200"
    using C6_goal_seek [of 1200 0 1 0] by blast
  show ?thesis using a b c d e by simp
qed


subsection \<open>The break-even year\<close>

lemma breakEvenLoop_find:
  "breakEvenLoop A B is =
     map_option (\<lambda>i. i + 1)
       (find (\<lambda>i. i \<noteq> 0 \<and> signFlipsAt A B i) is)"
  by (induction "is") (auto simp: Let_def signFlipsAt_def)

lemma find_upto_Some:
  "find P [m..n] = Some x \<longleftrightarrow> m \<le> x \<and> x \<le> n \<and> P x \<and> (\<forall>j. m \<le> j \<and> j < x \<longrightarrow> \<not> P j)"
proof (induction m n rule: upto.induct)
  case (1 m n)
  show ?case
  proof (cases "m \<le> n")
    case False
    then show ?thesis by auto
  next
    case True
    then have u: "[m..n] = m # [m + 1..n]" by (simp add: upto_rec1)
    show ?thesis
    proof (cases "P m")
      case True
      then show ?thesis using u \<open>m \<le> n\<close> by (auto simp: not_less [symmetric])
    next
      case False
      have "(\<forall>j. m \<le> j \<and> j < x \<longrightarrow> \<not> P j) \<longleftrightarrow> (\<forall>j. m + 1 \<le> j \<and> j < x \<longrightarrow> \<not> P j)"
        using False by (metis add1_zle_eq order_le_less)
      moreover have "P x \<Longrightarrow> (m \<le> x \<longleftrightarrow> m + 1 \<le> x)"
        using False by (metis add1_zle_eq order_le_less)
      ultimately show ?thesis using u False 1 [OF \<open>m \<le> n\<close>] by auto
    qed
  qed
qed

lemma find_upto_None:
  "find P [m..n] = None \<longleftrightarrow> (\<forall>j. m \<le> j \<and> j \<le> n \<longrightarrow> \<not> P j)"
  by (auto simp: find_None_iff)


lemma skip_index_zero:
  "(\<forall>j::int. 0 \<le> j \<and> j < n \<longrightarrow> \<not> (j \<noteq> 0 \<and> Q j)) \<longleftrightarrow> (\<forall>j. 1 \<le> j \<and> j < n \<longrightarrow> \<not> Q j)"
proof (intro iffI allI impI)
  fix j assume h: "\<forall>j. 0 \<le> j \<and> j < n \<longrightarrow> \<not> (j \<noteq> 0 \<and> Q j)" and j: "1 \<le> j \<and> j < n"
  from j have "0 \<le> j \<and> j < n" by simp
  with h have "\<not> (j \<noteq> 0 \<and> Q j)" by blast
  then show "\<not> Q j" using j by simp
next
  fix j assume h: "\<forall>j. 1 \<le> j \<and> j < n \<longrightarrow> \<not> Q j" and j: "0 \<le> j \<and> j < n"
  show "\<not> (j \<noteq> 0 \<and> Q j)"
  proof (cases "j = 0")
    case True then show ?thesis by simp
  next
    case False
    then have "1 \<le> j \<and> j < n" using j by simp
    then show ?thesis using h by blast
  qed
qed

lemma breakEvenYear_determineWinner:
  "breakEvenYear (determineWinner A B t) =
     map_option (\<lambda>i. i + 1) (find (\<lambda>i. i \<noteq> 0 \<and> signFlipsAt A B i) [0..t - 1])"
  by (simp add: determineWinner_def breakEvenLoop_find)

text \<open>
  C4: the reported break-even year is \<open>y\<close> exactly when \<open>y - 1\<close> is the first index from 1
  on, below the timeframe, at which the sign of \<open>netWorthA - netWorthB\<close> flips relative to
  the previous index (a tie at the index counting as a flip); it is \<open>None\<close> exactly when
  no index from 1 on below the timeframe has such a flip. In particular, when A is above
  B in the years 1 to 6 and below B from year 7 to the end of a timeframe of at least 7
  years, the reported year is 7.
\<close>

theorem C4_break_even:
  "(\<forall>y. breakEvenYear (determineWinner resultsA resultsB timeframe) = Some y \<longleftrightarrow>
          (2 \<le> y \<and> y \<le> timeframe \<and> signFlipsAt resultsA resultsB (y - 1)
           \<and> (\<forall>j. 1 \<le> j \<and> j < y - 1 \<longrightarrow> \<not> signFlipsAt resultsA resultsB j)))
   \<and> (breakEvenYear (determineWinner resultsA resultsB timeframe) = None \<longleftrightarrow>
          (\<forall>j. 1 \<le> j \<and> j < timeframe \<longrightarrow> \<not> signFlipsAt resultsA resultsB j))
   \<and> (7 \<le> timeframe
        \<and> (\<forall>i. 0 \<le> i \<and> i < 6 \<longrightarrow>
               netWorthAt (netWorthData resultsB) i < netWorthAt (netWorthData resultsA) i)
        \<and> (\<forall>i. 6 \<le> i \<and> i < timeframe \<longrightarrow>
               netWorthAt (netWorthData resultsA) i < netWorthAt (netWorthData resultsB) i)
        \<longrightarrow> breakEvenYear (determineWinner resultsA resultsB timeframe) = Some 7)"
proof -
  let ?P = "\<lambda>i. i \<noteq> 0 \<and> signFlipsAt resultsA resultsB i"
  let ?r = "breakEvenYear (determineWinner resultsA resultsB timeframe)"
  have r: "?r = map_option (\<lambda>i. i + 1) (find ?P [0..timeframe - 1])"
    by (rule breakEvenYear_determineWinner)
  have some: "?r = Some y \<longleftrightarrow>
          (2 \<le> y \<and> y \<le> timeframe \<and> signFlipsAt resultsA resultsB (y - 1)
           \<and> (\<forall>j. 1 \<le> j \<and> j < y - 1 \<longrightarrow> \<not> signFlipsAt resultsA resultsB j))" for y
  proof -
    have "?r = Some y \<longleftrightarrow> find ?P [0..timeframe - 1] = Some (y - 1)"
      unfolding r by (cases "find ?P [0..timeframe - 1]") auto
    also have "\<dots> \<longleftrightarrow> 0 \<le> y - 1 \<and> y - 1 \<le> timeframe - 1 \<and> ?P (y - 1)
                        \<and> (\<forall>j. 0 \<le> j \<and> j < y - 1 \<longrightarrow> \<not> ?P j)"
      by (rule find_upto_Some)
    also have "\<dots> \<longleftrightarrow> (2 \<le> y \<and> y \<le> timeframe \<and> signFlipsAt resultsA resultsB (y - 1)
           \<and> (\<forall>j. 1 \<le> j \<and> j < y - 1 \<longrightarrow> \<not> signFlipsAt resultsA resultsB j))"
      using skip_index_zero [of "y - 1" "signFlipsAt resultsA resultsB"] by auto
    finally show ?thesis .
  qed
  have none: "?r = None \<longleftrightarrow> (\<forall>j. 1 \<le> j \<and> j < timeframe \<longrightarrow> \<not> signFlipsAt resultsA resultsB j)"
  proof -
    have "?r = None \<longleftrightarrow> find ?P [0..timeframe - 1] = None"
      unfolding r by simp
    also have "\<dots> \<longleftrightarrow> (\<forall>j. 0 \<le> j \<and> j \<le> timeframe - 1 \<longrightarrow> \<not> ?P j)"
      by (rule find_upto_None)
    also have "\<dots> \<longleftrightarrow> (\<forall>j. 0 \<le> j \<and> j < timeframe \<longrightarrow> \<not> ?P j)"
      by simp
    also have "\<dots> \<longleftrightarrow> (\<forall>j. 1 \<le> j \<and> j < timeframe \<longrightarrow> \<not> signFlipsAt resultsA resultsB j)"
      by (rule skip_index_zero)
    finally show ?thesis .
  qed
  have seven: "?r = Some 7"
    if t: "7 \<le> timeframe"
    and a: "\<forall>i. 0 \<le> i \<and> i < 6 \<longrightarrow>
               netWorthAt (netWorthData resultsB) i < netWorthAt (netWorthData resultsA) i"
    and b: "\<forall>i. 6 \<le> i \<and> i < timeframe \<longrightarrow>
               netWorthAt (netWorthData resultsA) i < netWorthAt (netWorthData resultsB) i"
  proof -
    have f: "signFlipsAt resultsA resultsB 6"
      using a [rule_format, of 5] b [rule_format, of 6] t by (simp add: signFlipsAt_def Let_def)
    have n: "\<not> signFlipsAt resultsA resultsB j" if "1 \<le> j" "j < 6" for j
      using a [rule_format, of j] a [rule_format, of "j - 1"] that
      by (simp add: signFlipsAt_def Let_def)
    show ?thesis using some [of 7] f n t by simp
  qed
  show ?thesis using some none seven by blast
qed

lemma netWorthAt_crossoverA:
  "0 \<le> i \<Longrightarrow> i < 8 \<Longrightarrow> netWorthAt (netWorthData crossoverA) i = 100"
  by (simp add: netWorthAt_def crossoverA_def nth_Cons')

lemma netWorthAt_crossoverB:
  "0 \<le> i \<Longrightarrow> i < 8 \<Longrightarrow> netWorthAt (netWorthData crossoverB) i = 16 * of_int i + 11"
proof -
  assume "0 \<le> i" "i < 8"
  then have "i = 0 \<or> i = 1 \<or> i = 2 \<or> i = 3 \<or> i = 4 \<or> i = 5 \<or> i = 6 \<or> i = 7" by presburger
  then show ?thesis
    by (elim disjE) (simp_all add: netWorthAt_def crossoverB_def)
qed

theorem C4_break_even_witness:
  "breakEvenYear (determineWinner crossoverA crossoverB 8) = Some 7
   \<and> breakEvenYear (determineWinner crossoverA crossoverA 8) = None
   \<and> signFlipsAt crossoverA crossoverB 6"
proof -
  have a: "\<forall>i. 0 \<le> i \<and> i < 6 \<longrightarrow>
               netWorthAt (netWorthData crossoverB) i < netWorthAt (netWorthData crossoverA) i"
    by (simp add: netWorthAt_crossoverA netWorthAt_crossoverB)
  have b: "\<forall>i. 6 \<le> i \<and> i < 8 \<longrightarrow>
               netWorthAt (netWorthData crossoverA) i < netWorthAt (netWorthData crossoverB) i"
    by (simp add: netWorthAt_crossoverA netWorthAt_crossoverB)
  have s: "breakEvenYear (determineWinner crossoverA crossoverB 8) = Some 7"
    using C4_break_even [of crossoverA crossoverB 8] a b by simp
  have n: "breakEvenYear (determineWinner crossoverA crossoverA 8) = None"
    using C4_break_even [of crossoverA crossoverA 8] by (simp add: signFlipsAt_def)
  have "breakEvenYear (determineWinner crossoverA crossoverB 8) = Some 7 \<longleftrightarrow>
          (2 \<le> (7::int) \<and> (7::int) \<le> 8 \<and> signFlipsAt crossoverA crossoverB (7 - 1)
           \<and> (\<forall>j. 1 \<le> j \<and> j < 7 - 1 \<longrightarrow> \<not> signFlipsAt crossoverA crossoverB j))"
    using C4_break_even [of crossoverA crossoverB 8] by blast
  with s have f: "signFlipsAt crossoverA crossoverB 6" by simp
  show ?thesis using s n f by simp
qed


subsection \<open>Monotonicity of the investment projection\<close>

lemma investMonths_invariant:
  assumes "0 \<le> r" "0 \<le> c" "0 \<le> fst st + c" "snd st \<le> fst st"
  shows "0 \<le> fst (investMonths k c r st) + c
       \<and> snd (investMonths k c r st) \<le> fst (investMonths k c r st)
       \<and> fst st \<le> fst (investMonths k c r st)"
  using assms(3,4)
proof (induction k arbitrary: st)
  case 0
  then show ?case by simp
next
  case (Suc k)
  obtain v i where st: "st = (v, i)" by (cases st)
  let ?st = "((v + c) * (1 + r), i + c)"
  have g: "0 \<le> (v + c) * r" using Suc.prems assms(1) st by simp
  then have up: "v + c \<le> (v + c) * (1 + r)" by (simp add: algebra_simps)
  have a: "0 \<le> fst ?st + c" using up Suc.prems assms(2) st by simp
  have b: "snd ?st \<le> fst ?st" using up Suc.prems st by simp
  have c: "fst st \<le> fst ?st" using up assms(2) st by simp
  from Suc.IH [OF a b] c show ?case by (simp add: st)
qed

lemma investLoop_invariant:
  assumes "0 \<le> r" "0 \<le> c" "0 \<le> fst st + c" "snd st \<le> fst st"
  shows "sorted (map inv_value (investLoop c r st ys))
       \<and> (\<forall>s \<in> set (investLoop c r st ys).
             fst st \<le> inv_value s \<and> inv_gains s = inv_value s - inv_invested s \<and> 0 \<le> inv_gains s)"
  using assms(3,4)
proof (induction ys arbitrary: st)
  case Nil
  then show ?case by simp
next
  case (Cons y ys)
  let ?st = "investMonths 12 c r st"
  note m = investMonths_invariant [OF assms(1,2) Cons.prems, of 12]
  from m have a: "0 \<le> fst ?st + c" and b: "snd ?st \<le> fst ?st" and c: "fst st \<le> fst ?st"
    by blast+
  note ih = Cons.IH [OF a b]
  show ?case using ih b c by (auto simp: Let_def)
qed

text \<open>
  C8 (amended): for every annual return \<open>\<ge> 0\<close>, monthly contribution \<open>\<ge> 0\<close> and initial amount
  that is at least minus one contribution (in particular every initial amount \<open>\<ge> 0\<close>), and
  every number of years, the value is non-decreasing from one yearly snapshot to the next,
  and in every snapshot the gains are the value less the invested total and are not
  negative.
\<close>

theorem C8_investment_monotone:
  assumes "0 \<le> annualReturn" and "0 \<le> monthlyContribution"
    and "0 \<le> initialAmount + monthlyContribution"
  shows "(\<forall>i. Suc i < length (calculateInvestmentGrowth initialAmount monthlyContribution annualReturn years)
            \<longrightarrow> inv_value (calculateInvestmentGrowth initialAmount monthlyContribution annualReturn years ! i)
               \<le> inv_value (calculateInvestmentGrowth initialAmount monthlyContribution annualReturn years ! Suc i))
       \<and> (\<forall>s \<in> set (calculateInvestmentGrowth initialAmount monthlyContribution annualReturn years).
             inv_gains s = inv_value s - inv_invested s \<and> 0 \<le> inv_gains s)"
proof -
  let ?xs = "calculateInvestmentGrowth initialAmount monthlyContribution annualReturn years"
  have r: "0 \<le> annualReturn / 100 / 12" using assms(1) by simp
  have inv: "sorted (map inv_value ?xs)
       \<and> (\<forall>s \<in> set ?xs.
             fst (initialAmount, initialAmount) \<le> inv_value s
             \<and> inv_gains s = inv_value s - inv_invested s \<and> 0 \<le> inv_gains s)"
    unfolding calculateInvestmentGrowth_def Let_def
    by (rule investLoop_invariant [OF r assms(2)]) (use assms(3) in simp_all)
  have "inv_value (?xs ! i) \<le> inv_value (?xs ! Suc i)" if "Suc i < length ?xs" for i
  proof -
    have "map inv_value ?xs ! i \<le> map inv_value ?xs ! Suc i"
      using inv that by (intro sorted_nth_mono) simp_all
    then show ?thesis using that by simp
  qed
  then show ?thesis using inv by blast
qed

lemma length_investLoop: "length (investLoop c r st ys) = length ys"
  by (induction ys arbitrary: st) (simp_all add: Let_def)

lemma length_calculateInvestmentGrowth:
  "length (calculateInvestmentGrowth initialAmount monthlyContribution annualReturn years) = nat years"
  by (simp add: calculateInvestmentGrowth_def Let_def length_investLoop)

text \<open>
  C8, as the specification states it, fails for a negative initial amount, which the
  projector accepts: a debt of 1000 with no contribution at 12 percent grows more negative
  from year 1 to year 2, and the gains of year 1 are negative.
\<close>

theorem C8_negative_initial_counterexample:
  "(0::real) \<le> 12 \<and> (0::real) \<le> 0
   \<and> inv_value (calculateInvestmentGrowth (-1000) 0 12 2 ! 1)
       < inv_value (calculateInvestmentGrowth (-1000) 0 12 2 ! 0)
   \<and> inv_gains (calculateInvestmentGrowth (-1000) 0 12 2 ! 0) < 0"
  by (simp add: calculateInvestmentGrowth_def Let_def upto.simps eval_nat_numeral)

theorem C8_investment_monotone_witness:
  "(0::real) \<le> 8 \<and> (0::real) \<le> 500 \<and> (0::real) \<le> 10000 + 500
   \<and> inv_value (calculateInvestmentGrowth 10000 500 8 2 ! 0)
       \<le> inv_value (calculateInvestmentGrowth 10000 500 8 2 ! 1)
   \<and> 0 \<le> inv_gains (calculateInvestmentGrowth 10000 500 8 2 ! 1)"
proof -
  let ?xs = "calculateInvestmentGrowth 10000 500 8 2"
  have l: "length ?xs = 2" by (simp add: length_calculateInvestmentGrowth)
  have h: "(0::real) \<le> 8" "(0::real) \<le> 500" "(0::real) \<le> 10000 + 500" by simp_all
  note t = C8_investment_monotone [OF h, of 2]
  have "Suc 0 < length ?xs" using l by simp
  with t have a: "inv_value (?xs ! 0) \<le> inv_value (?xs ! Suc 0)" by blast
  have "?xs ! 1 \<in> set ?xs" using l by simp
  with t have b: "0 \<le> inv_gains (?xs ! 1)" by blast
  show ?thesis using a b by simp
qed


subsection \<open>The amortization schedule in exact arithmetic\<close>

lemma balance_nonneg_scheduleLoop:
  "row \<in> set (scheduleLoop r p n b ms) \<Longrightarrow> 0 \<le> row_balance row"
  by (induction ms arbitrary: b) (auto simp: Let_def)

lemma balance_sorted_scheduleLoop:
  assumes "0 \<le> r" "0 \<le> P" "P * r \<le> M"
  shows "b \<le> P \<Longrightarrow>
         sorted_wrt (\<lambda>x y. y \<le> x) (map row_balance (scheduleLoop r M n b ms))
         \<and> (\<forall>row \<in> set (scheduleLoop r M n b ms). row_balance row \<le> max 0 b)"
proof (induction ms arbitrary: b)
  case Nil
  then show ?case by simp
next
  case (Cons m ms)
  let ?b1 = "b - (M - b * r)"
  let ?b2 = "if m = n then 0 else ?b1"
  let ?rest = "scheduleLoop r M n ?b2 ms"
  have "b * r \<le> P * r" using Cons.prems assms(1) by (simp add: mult_right_mono)
  then have d: "?b1 \<le> b" using assms(3) by simp
  then have le: "?b2 \<le> P" using Cons.prems assms(2) by simp
  have mx: "max 0 ?b2 \<le> max 0 b" using d by auto
  have hd: "map row_balance (scheduleLoop r M n b (m # ms)) = max 0 ?b2 # map row_balance ?rest"
    by (simp add: Let_def)
  have st: "set (scheduleLoop r M n b (m # ms)) \<subseteq> {x. row_balance x = max 0 ?b2} \<union> set ?rest"
    by (auto simp: Let_def)
  from Cons.IH [OF le] have ih1: "sorted_wrt (\<lambda>x y. y \<le> x) (map row_balance ?rest)"
    and ih2: "\<forall>row \<in> set ?rest. row_balance row \<le> max 0 ?b2" by blast+
  have s: "sorted_wrt (\<lambda>x y. y \<le> x) (map row_balance (scheduleLoop r M n b (m # ms)))"
    unfolding hd using ih1 ih2 by simp
  have "row_balance row \<le> max 0 b" if "row \<in> set (scheduleLoop r M n b (m # ms))" for row
  proof -
    from that st have "row_balance row = max 0 ?b2 \<or> row \<in> set ?rest" by blast
    then have "row_balance row \<le> max 0 ?b2" using ih2 by auto
    then show ?thesis using mx by (rule order_trans)
  qed
  with s show ?case by blast
qed

lemma principal_sum_scheduleLoop:
  "sum_list (map row_principal (scheduleLoop r M n b [m..n]))
     = b - ((\<lambda>x. x - (M - x * r)) ^^ nat (n - m + 1)) b"
proof (induction m n arbitrary: b rule: upto.induct)
  case (1 m n)
  let ?f = "\<lambda>x. x - (M - x * r)"
  show ?case
  proof (cases "m \<le> n")
    case False
    then show ?thesis by simp
  next
    case True
    then have u: "[m..n] = m # [m + 1..n]" by (simp add: upto_rec1)
    show ?thesis
    proof (cases "m = n")
      case True
      then show ?thesis using u by (simp add: Let_def)
    next
      case False
      with True have k: "nat (n - m + 1) = Suc (nat (n - (m + 1) + 1))" by simp
      have sw: "(?f ^^ Suc j) b = (?f ^^ j) (?f b)" for j
        by (simp only: funpow_Suc_right o_apply)
      have "sum_list (map row_principal (scheduleLoop r M n b [m..n]))
              = (M - b * r) + sum_list (map row_principal (scheduleLoop r M n (?f b) [m + 1..n]))"
        using False u by (simp add: Let_def)
      also have "\<dots> = (M - b * r) + (?f b - (?f ^^ nat (n - (m + 1) + 1)) (?f b))"
        by (simp only: 1 [OF True])
      also have "\<dots> = b - (?f ^^ nat (n - m + 1)) b"
        by (simp only: k sw)
      finally show ?thesis .
    qed
  qed
qed

lemma last_balance_scheduleLoop:
  "m \<le> n \<Longrightarrow> row_balance (last (scheduleLoop r M n b [m..n])) = 0"
proof (induction m n arbitrary: b rule: upto.induct)
  case (1 m n)
  then have u: "[m..n] = m # [m + 1..n]" by (simp add: upto_rec1)
  show ?case
  proof (cases "m = n")
    case True
    then show ?thesis using u by (simp add: Let_def)
  next
    case False
    then have lt: "m + 1 \<le> n" using 1(2) by simp
    then have ne: "scheduleLoop r M n (b - (M - b * r)) [m + 1..n] \<noteq> []"
      using length_scheduleLoop [of r M n "b - (M - b * r)" "[m + 1..n]"] by auto
    show ?thesis
      using False u ne 1(1) [OF 1(2) lt, of "b - (M - b * r)"]
      by (simp add: Let_def)
  qed
qed

text \<open>
  The balance before the last row is forced to 0: \<open>k\<close> rounds of subtracting the principal
  component, in closed form (multiplied by the rate, to avoid a division).
\<close>

lemma unforced_balance_closed:
  "((\<lambda>x. x - (M - x * r)) ^^ k) b * r = b * r * (1 + r) ^ k - M * ((1 + r) ^ k - 1)"
  for b :: real
proof (induction k)
  case 0
  then show ?case by simp
next
  case (Suc k)
  let ?X = "((\<lambda>x. x - (M - x * r)) ^^ k) b"
  have "((\<lambda>x. x - (M - x * r)) ^^ Suc k) b * r = ?X * r - M * r + (?X * r) * r"
    by (simp add: algebra_simps)
  also have "\<dots> = b * r * (1 + r) ^ Suc k - M * ((1 + r) ^ Suc k - 1)"
    by (simp only: Suc.IH) (simp add: algebra_simps)
  finally show ?case .
qed

lemma unforced_balance_zero_rate:
  "((\<lambda>x. x - (M - x * 0)) ^^ k) b = b - real k * M"
  for b :: real
  by (induction k) (simp_all add: algebra_simps)

lemma monthlyPayment_formula:
  assumes "0 < P" "0 < a" "0 < years"
  shows "calculateMonthlyPayment P a years
           = P * (a / 100 / 12 * (1 + a / 100 / 12) ^ nat (years * 12))
               / ((1 + a / 100 / 12) ^ nat (years * 12) - 1)"
  using assms by (simp add: calculateMonthlyPayment_def Let_def)

lemma growth_factor_gt_one:
  assumes "0 < a" "0 < years"
  shows "1 < (1 + a / 100 / 12 :: real) ^ nat (years * 12)"
proof -
  have "1 < 1 + a / 100 / 12" using assms(1) by simp
  moreover have "0 < nat (years * 12)" using assms(2) by simp
  ultimately show ?thesis by (rule one_less_power)
qed

lemma payment_covers_interest:
  assumes "0 < P" "0 \<le> a" "0 < years"
  shows "P * (a / 100 / 12) \<le> calculateMonthlyPayment P a years"
proof (cases "a = 0")
  case True
  then show ?thesis using assms by (simp add: calculateMonthlyPayment_def)
next
  case False
  then have a: "0 < a" using assms(2) by simp
  define r where "r = a / 100 / 12"
  define q where "q = (1 + r) ^ nat (years * 12)"
  have r: "0 < r" using a by (simp add: r_def)
  have q: "1 < q" unfolding q_def r_def by (rule growth_factor_gt_one [OF a assms(3)])
  have M: "calculateMonthlyPayment P a years = P * (r * q) / (q - 1)"
    unfolding q_def r_def by (rule monthlyPayment_formula [OF assms(1) a assms(3)])
  have "0 \<le> P * r" using assms(1) r by simp
  then have "P * r * (q - 1) \<le> P * r * q" by (intro mult_left_mono) simp_all
  then have "P * r \<le> P * r * q / (q - 1)"
    using q by (simp add: pos_le_divide_eq)
  then show ?thesis unfolding M r_def [symmetric] by (simp add: mult.assoc)
qed

lemma payment_amortizes:
  assumes "0 < P" "0 \<le> a" "0 < years"
  shows "((\<lambda>x. x - (calculateMonthlyPayment P a years - x * (a / 100 / 12))) ^^ nat (years * 12)) P = 0"
proof (cases "a = 0")
  case True
  have n: "real (nat (years * 12)) = of_int years * 12" using assms(3) by simp
  have M: "calculateMonthlyPayment P a years = P / (of_int years * 12)"
    using assms True by (simp add: calculateMonthlyPayment_def)
  have "((\<lambda>x. x - (calculateMonthlyPayment P a years - x * 0)) ^^ nat (years * 12)) P
          = P - real (nat (years * 12)) * calculateMonthlyPayment P a years"
    by (rule unforced_balance_zero_rate)
  also have "\<dots> = 0" unfolding n M using assms(3) by simp
  finally show ?thesis using True by simp
next
  case False
  then have a: "0 < a" using assms(2) by simp
  define r where "r = a / 100 / 12"
  define n where "n = nat (years * 12)"
  define q where "q = (1 + r) ^ n"
  define M where "M = calculateMonthlyPayment P a years"
  have r: "0 < r" using a by (simp add: r_def)
  have q: "1 < q" unfolding q_def r_def n_def by (rule growth_factor_gt_one [OF a assms(3)])
  have Mq: "M = P * (r * q) / (q - 1)"
    unfolding M_def q_def r_def n_def by (rule monthlyPayment_formula [OF assms(1) a assms(3)])
  have "M * (q - 1) = P * r * q" using q by (simp add: Mq)
  then have "((\<lambda>x. x - (M - x * r)) ^^ n) P * r = 0"
    unfolding unforced_balance_closed q_def [symmetric] by simp
  then have "((\<lambda>x. x - (M - x * r)) ^^ n) P = 0" using r by simp
  then show ?thesis unfolding M_def r_def n_def .
qed


text \<open>
  The schedule in exact arithmetic: for a principal \<open>> 0\<close>, an annual rate \<open>\<ge> 0\<close> and a term
  \<open>> 0\<close> it has \<open>years * 12\<close> rows, every balance is \<open>\<ge> 0\<close>, the balances do not increase
  from a row to the next, the last balance is 0, and the principal components add up to
  the principal. The last two facts about the payment formula are facts of real
  arithmetic only: in double precision a positive rate so small that \<open>1 + monthlyRate\<close>
  rounds to 1 passes the test \<open>monthlyRate === 0\<close> and makes the denominator of the payment
  formula 0, so that the payment and every principal component are \<open>Infinity\<close>.
\<close>

lemma amortization_schedule_exact:
  assumes "0 < princ" and "0 \<le> annualRate" and "0 < years"
  shows "length (generateAmortizationSchedule princ annualRate years) = nat (years * 12)
       \<and> (\<forall>row \<in> set (generateAmortizationSchedule princ annualRate years). 0 \<le> row_balance row)
       \<and> (\<forall>i. Suc i < length (generateAmortizationSchedule princ annualRate years) \<longrightarrow>
              row_balance (generateAmortizationSchedule princ annualRate years ! Suc i)
                \<le> row_balance (generateAmortizationSchedule princ annualRate years ! i))
       \<and> row_balance (last (generateAmortizationSchedule princ annualRate years)) = 0
       \<and> sum_list (map row_principal (generateAmortizationSchedule princ annualRate years)) = princ"
proof -
  let ?S = "generateAmortizationSchedule princ annualRate years"
  let ?r = "annualRate / 100 / 12"
  let ?M = "calculateMonthlyPayment princ annualRate years"
  have S: "?S = scheduleLoop ?r ?M (years * 12) princ [1..years * 12]"
    by (simp add: generateAmortizationSchedule_def Let_def)
  have len: "length ?S = nat (years * 12)"
    by (rule length_generateAmortizationSchedule)
  have nonneg: "\<forall>row \<in> set ?S. 0 \<le> row_balance row"
    unfolding S by (auto dest: balance_nonneg_scheduleLoop)
  have r: "0 \<le> ?r" using assms(2) by simp
  have "sorted_wrt (\<lambda>x y. y \<le> x) (map row_balance ?S)"
    unfolding S
    using balance_sorted_scheduleLoop [OF r _ payment_covers_interest [OF assms], of princ]
          assms(1)
    by simp
  then have mono: "row_balance (?S ! Suc i) \<le> row_balance (?S ! i)" if "Suc i < length ?S" for i
    using that sorted_wrt_nth_less [of "\<lambda>x y. y \<le> x" "map row_balance ?S" i "Suc i"] by simp
  have final: "row_balance (last ?S) = 0"
    unfolding S using assms(3) by (intro last_balance_scheduleLoop) simp
  have "sum_list (map row_principal ?S)
          = princ - ((\<lambda>x. x - (?M - x * ?r)) ^^ nat (years * 12 - 1 + 1)) princ"
    unfolding S by (rule principal_sum_scheduleLoop)
  also have "\<dots> = princ"
    using payment_amortizes [OF assms] by simp
  finally have total: "sum_list (map row_principal ?S) = princ" .
  show ?thesis using len nonneg mono final total by blast
qed

subsection \<open>Life events in the year-by-year records\<close>

lemma applyLifeEvents_sums:
  "applyLifeEvents y evs (ote, adj, inc) =
     (ote + oneTimeSum evs y, adj + ongoingSum evs y, inc + incomeSum evs y)"
  by (induction evs arbitrary: ote adj inc)
     (simp_all add: oneTimeSum_def ongoingSum_def incomeSum_def)

lemma oneTimeSum_insert:
  "oneTimeSum (evs1 @ e # evs2) y =
     oneTimeSum (evs1 @ evs2) y
       + (if ev_year e = y \<and> ev_type e = ''one-time'' then ev_amount e else 0)"
  by (simp add: oneTimeSum_def)

lemma ongoingSum_insert:
  "ongoingSum (evs1 @ e # evs2) y =
     ongoingSum (evs1 @ evs2) y
       + (if ev_year e = y \<and> ev_type e = ''ongoing'' then ev_amount e / 12 else 0)"
  by (simp add: ongoingSum_def)

lemma incomeSum_insert:
  "incomeSum (evs1 @ e # evs2) y =
     incomeSum (evs1 @ evs2) y
       + (if ev_year e = y \<and> ev_type e = ''income'' then ev_amount e else 0)"
  by (simp add: incomeSum_def)

lemma yearLoop_Cons:
  "yearLoop step st (y # ys) = fst (step st y) # yearLoop step (snd (step st y)) ys"
  by (simp split: prod.splits)

lemma yearLoop_append:
  "yearLoop step st (xs @ ys) = yearLoop step st xs @ yearLoop step (yearState step st xs) ys"
  by (induction xs arbitrary: st) (simp_all split: prod.splits)

lemma yearLoop_cong:
  "(\<And>y st. y \<in> set ys \<Longrightarrow> step' st y = step st y) \<Longrightarrow>
   yearLoop step' st ys = yearLoop step st ys \<and> yearState step' st ys = yearState step st ys"
  by (induction ys arbitrary: st) (simp_all split: prod.splits)

text \<open>The fields of one year's record and the state it leaves, with the events summed.\<close>

lemma yearStep_expenses:
  "yr_monthlyExpenses (fst (yearStep adjs h raise base sr evs ir eqData (inc, p, adj) y))
     = h + base + adj"
  by (simp add: yearStep_def Let_def)

lemma yearStep_ongoing:
  "snd (snd (snd (yearStep adjs h raise base sr evs ir eqData (inc, p, adj) y)))
     = adj + ongoingSum evs y"
  by (simp add: yearStep_def Let_def applyLifeEvents_sums)

lemma yearStep_same:
  assumes "oneTimeSum evs' y = oneTimeSum evs y" "ongoingSum evs' y = ongoingSum evs y"
    "incomeSum evs' y = incomeSum evs y"
  shows "yearStep adjs h raise base sr evs' ir eqData st y
           = yearStep adjs h raise base sr evs ir eqData st y"
  using assms by (cases st) (simp add: yearStep_def Let_def applyLifeEvents_sums)

lemma yearStep_oneTime_portfolio:
  assumes "oneTimeSum evs' y = oneTimeSum evs y + x" "ongoingSum evs' y = ongoingSum evs y"
    "incomeSum evs' y = incomeSum evs y" "0 \<le> x"
  shows "yr_portfolio (fst (yearStep adjs h raise base sr evs' ir eqData st y))
           = max 0 (yr_portfolio (fst (yearStep adjs h raise base sr evs ir eqData st y)) - x)"
  using assms by (cases st) (auto simp: yearStep_def Let_def applyLifeEvents_sums)

lemma expenses_nth:
  "i < length ys \<Longrightarrow>
   yr_monthlyExpenses (yearLoop (yearStep adjs h raise base sr evs ir eqData) (inc, p, adj) ys ! i)
     = h + base + adj + sum_list (map (ongoingSum evs) (take i ys))"
proof (induction ys arbitrary: inc p adj i)
  case Nil
  then show ?case by simp
next
  case (Cons y ys)
  let ?s = "yearStep adjs h raise base sr evs ir eqData (inc, p, adj) y"
  obtain i1 p1 a1 where s: "snd ?s = (i1, p1, a1)" by (cases "snd ?s")
  have a: "a1 = adj + ongoingSum evs y"
    using yearStep_ongoing [of adjs h raise base sr evs ir eqData inc p adj y] s by simp
  show ?case
  proof (cases i)
    case 0
    then show ?thesis unfolding yearLoop_Cons by (simp add: yearStep_expenses)
  next
    case (Suc i')
    then have "i' < length ys" using Cons.prems by simp
    from Cons.IH [OF this, of i1 p1 a1] show ?thesis
      unfolding yearLoop_Cons s Suc a by simp
  qed
qed

lemma sum_list_upto_delta:
  "sum_list (map (\<lambda>y. f y + (if y = k then d else 0)) [m..n])
     = sum_list (map f [m..n]) + (if m \<le> k \<and> k \<le> n then d else (0::real))"
proof -
  have "sum_list (map (\<lambda>y. if y = k then d else 0) [m..n]) = (\<Sum>y\<in>{m..n}. if y = k then d else 0)"
    by (simp add: sum_list_distinct_conv_sum_set)
  also have "\<dots> = (if m \<le> k \<and> k \<le> n then d else 0)"
    by (simp add: sum.delta)
  finally show ?thesis by (simp add: sum_list_addf)
qed

lemma take_upto: "0 \<le> i \<Longrightarrow> m + i - 1 \<le> n \<Longrightarrow> take (nat i) [m..n] = [m..m + i - 1]"
proof -
  assume h: "0 \<le> i" "m + i - 1 \<le> n"
  show ?thesis
  proof (cases "i = 0")
    case True
    then show ?thesis by simp
  next
    case False
    then have "[m..n] = [m..m + i - 1] @ [m + i - 1 + 1..n]"
      using h by (intro upto_split2) simp_all
    then show ?thesis using h by simp
  qed
qed


lemma yearlyData_unfold:
  "yearlyData (calculateYearByYearFinancials adjs scen years raise base sr evs ir ar)
     = yearLoop
         (yearStep adjs (totalMonthlyCost (calculations scen)) raise base sr evs ir
            (calculateEquityOverTime (purchasePrice (propertyInfo scen))
               (loanAmount (calculations scen)) (interestRate (propertyInfo scen))
               (min years (loanTerm (propertyInfo scen))) ar))
         (annualIncome (incomeInfo scen),
          max 0 (currentPortfolio (incomeInfo scen) - downPaymentAmount (propertyInfo scen)), 0)
         [1..years]"
  by (simp add: calculateYearByYearFinancials_def Let_def)

lemma expenses_year:
  assumes "1 \<le> j" "j \<le> years"
  shows "yr_monthlyExpenses
           (yearlyData (calculateYearByYearFinancials adjs scen years raise base sr evs ir ar)
              ! nat (j - 1))
         = totalMonthlyCost (calculations scen) + base
             + sum_list (map (ongoingSum evs) [1..j - 1])"
proof -
  have t: "take (nat (j - 1)) [1..years] = [1..j - 1]"
    using take_upto [of "j - 1" 1 years] assms by simp
  have "nat (j - 1) < length [1..years]" using assms by simp
  from expenses_nth [OF this] show ?thesis
    unfolding yearlyData_unfold t by simp
qed

lemma years_before_event:
  assumes "1 \<le> k" "k \<le> years"
    and same: "\<And>st y. y \<noteq> k \<Longrightarrow> step' st y = step st y"
  shows "take (nat (k - 1)) (yearLoop step' st0 [1..years])
           = take (nat (k - 1)) (yearLoop step st0 [1..years])
       \<and> yearLoop step' st0 [1..years] ! nat (k - 1)
           = fst (step' (yearState step st0 [1..k - 1]) k)
       \<and> yearLoop step st0 [1..years] ! nat (k - 1)
           = fst (step (yearState step st0 [1..k - 1]) k)"
proof -
  have sp: "[1..years] = [1..k - 1] @ k # [k + 1..years]"
    using assms(1,2) by (rule upto_split3)
  have c: "yearLoop step' st0 [1..k - 1] = yearLoop step st0 [1..k - 1]
           \<and> yearState step' st0 [1..k - 1] = yearState step st0 [1..k - 1]"
    by (rule yearLoop_cong) (simp add: same)
  have l: "length (yearLoop step st0 [1..k - 1]) = nat (k - 1)"
    by (simp add: length_yearLoop)
  have l': "length (yearLoop step' st0 [1..k - 1]) = nat (k - 1)"
    by (simp add: length_yearLoop)
  have "yearLoop step' st0 [1..years]
          = yearLoop step st0 [1..k - 1]
            @ fst (step' (yearState step st0 [1..k - 1]) k)
              # yearLoop step' (snd (step' (yearState step st0 [1..k - 1]) k)) [k + 1..years]"
    unfolding sp yearLoop_append yearLoop_Cons using c by simp
  moreover have "yearLoop step st0 [1..years]
          = yearLoop step st0 [1..k - 1]
            @ fst (step (yearState step st0 [1..k - 1]) k)
              # yearLoop step (snd (step (yearState step st0 [1..k - 1]) k)) [k + 1..years]"
    unfolding sp yearLoop_append yearLoop_Cons by simp
  ultimately show ?thesis using l by (simp add: nth_append)
qed


text \<open>
  C2 (amended): inserting, anywhere in the list of life events, an event scheduled in a
  year \<open>k\<close> of the horizon has these effects on the yearly records. A one-time event of an
  amount \<open>X \<ge> 0\<close> leaves the records of the years 1 to \<open>k - 1\<close> and the monthly expenses
  recorded for every year unchanged, and lowers the portfolio recorded for year \<open>k\<close>, a value
  taken after the year's twelve months of growth, to the larger of 0 and that portfolio
  less \<open>X\<close>: by \<open>X\<close> exactly when the portfolio is at least \<open>X\<close>. An ongoing event of an annual
  amount \<open>Y\<close> raises the monthly expenses recorded for every year after \<open>k\<close>, through the end
  of the horizon, by \<open>Y / 12\<close>.
\<close>

theorem C2_life_events:
  fixes adjs :: "income_adjustment list" and scen :: scenario and years :: int
    and raise base sr ir ar :: real and evs1 evs2 :: "life_event list" and e :: life_event
  defines "Y0 \<equiv> yearlyData (calculateYearByYearFinancials adjs scen years raise base sr
                                (evs1 @ evs2) ir ar)"
      and "Y1 \<equiv> yearlyData (calculateYearByYearFinancials adjs scen years raise base sr
                                (evs1 @ e # evs2) ir ar)"
  assumes k: "1 \<le> ev_year e" "ev_year e \<le> years"
  shows "(ev_type e = ''one-time'' \<and> 0 \<le> ev_amount e \<longrightarrow>
            take (nat (ev_year e - 1)) Y1 = take (nat (ev_year e - 1)) Y0
            \<and> yr_portfolio (Y1 ! nat (ev_year e - 1))
                = max 0 (yr_portfolio (Y0 ! nat (ev_year e - 1)) - ev_amount e)
            \<and> (ev_amount e \<le> yr_portfolio (Y0 ! nat (ev_year e - 1)) \<longrightarrow>
                 yr_portfolio (Y1 ! nat (ev_year e - 1))
                   = yr_portfolio (Y0 ! nat (ev_year e - 1)) - ev_amount e)
            \<and> map yr_monthlyExpenses Y1 = map yr_monthlyExpenses Y0)
       \<and> (ev_type e = ''ongoing'' \<longrightarrow>
            (\<forall>j. ev_year e < j \<and> j \<le> years \<longrightarrow>
                 yr_monthlyExpenses (Y1 ! nat (j - 1))
                   = yr_monthlyExpenses (Y0 ! nat (j - 1)) + ev_amount e / 12))"
proof (intro conjI impI allI)
  define H where "H = totalMonthlyCost (calculations scen)"
  define E where "E = calculateEquityOverTime (purchasePrice (propertyInfo scen))
               (loanAmount (calculations scen)) (interestRate (propertyInfo scen))
               (min years (loanTerm (propertyInfo scen))) ar"
  define st0 where "st0 = (annualIncome (incomeInfo scen),
          max 0 (currentPortfolio (incomeInfo scen) - downPaymentAmount (propertyInfo scen)),
          0::real)"
  define step where "step = yearStep adjs H raise base sr (evs1 @ evs2) ir E"
  define step' where "step' = yearStep adjs H raise base sr (evs1 @ e # evs2) ir E"
  have Y0: "Y0 = yearLoop step st0 [1..years]"
    unfolding Y0_def yearlyData_unfold step_def H_def E_def st0_def ..
  have Y1: "Y1 = yearLoop step' st0 [1..years]"
    unfolding Y1_def yearlyData_unfold step'_def H_def E_def st0_def ..
  have same: "step' st y = step st y" if "y \<noteq> ev_year e" for st y
    unfolding step_def step'_def using that
    by (intro yearStep_same) (simp_all add: oneTimeSum_insert ongoingSum_insert incomeSum_insert)
  note split = years_before_event [of "ev_year e" years step' step st0, OF k same, folded Y0 Y1]
  {
    assume ot: "ev_type e = ''one-time'' \<and> 0 \<le> ev_amount e"
    show "take (nat (ev_year e - 1)) Y1 = take (nat (ev_year e - 1)) Y0"
      using split by blast
    have p: "yr_portfolio (fst (step' st (ev_year e)))
               = max 0 (yr_portfolio (fst (step st (ev_year e))) - ev_amount e)" for st
      unfolding step_def step'_def using ot
      by (intro yearStep_oneTime_portfolio)
         (simp_all add: oneTimeSum_insert ongoingSum_insert incomeSum_insert)
    show b: "yr_portfolio (Y1 ! nat (ev_year e - 1))
                = max 0 (yr_portfolio (Y0 ! nat (ev_year e - 1)) - ev_amount e)"
      using split p by simp
    show "yr_portfolio (Y1 ! nat (ev_year e - 1))
            = yr_portfolio (Y0 ! nat (ev_year e - 1)) - ev_amount e"
      if "ev_amount e \<le> yr_portfolio (Y0 ! nat (ev_year e - 1))"
      using b that by simp
    show "map yr_monthlyExpenses Y1 = map yr_monthlyExpenses Y0"
    proof (rule nth_equalityI)
      show "length (map yr_monthlyExpenses Y1) = length (map yr_monthlyExpenses Y0)"
        by (simp add: Y0 Y1 length_yearLoop)
    next
      fix i assume "i < length (map yr_monthlyExpenses Y1)"
      then have i: "i < nat years" by (simp add: Y1 length_yearLoop)
      then have j: "1 \<le> int i + 1" "int i + 1 \<le> years" by simp_all
      have o: "ongoingSum (evs1 @ e # evs2) = ongoingSum (evs1 @ evs2)"
        using ot by (auto simp: ongoingSum_insert)
      have "yr_monthlyExpenses (Y1 ! nat (int i + 1 - 1)) = yr_monthlyExpenses (Y0 ! nat (int i + 1 - 1))"
        unfolding Y0_def Y1_def expenses_year [OF j] o ..
      then show "map yr_monthlyExpenses Y1 ! i = map yr_monthlyExpenses Y0 ! i"
        using i by (simp add: Y0 Y1 length_yearLoop)
    qed
  }
  {
    fix j
    assume og: "ev_type e = ''ongoing''" and j: "ev_year e < j \<and> j \<le> years"
    have j1: "1 \<le> j" "j \<le> years" using j k by simp_all
    have o: "ongoingSum (evs1 @ e # evs2)
               = (\<lambda>y. ongoingSum (evs1 @ evs2) y + (if y = ev_year e then ev_amount e / 12 else 0))"
      using og by (auto simp: ongoingSum_insert)
    show "yr_monthlyExpenses (Y1 ! nat (j - 1))
            = yr_monthlyExpenses (Y0 ! nat (j - 1)) + ev_amount e / 12"
      unfolding Y0_def Y1_def expenses_year [OF j1] o sum_list_upto_delta
      using j k by simp
  }
qed



text \<open>
  C2, as the specification states it, fails twice. A one-time expense larger than the
  grown portfolio does not reduce it by its amount: the portfolio is floored at 0 (49562
  becomes 0 under an expense of 60000). And an ongoing event of 6000 a year scheduled in
  year 1 leaves the monthly expenses recorded for year 1 at 5073: the year's expenses are
  computed before the year's events are applied.
\<close>

theorem C2_life_events_counterexample:
  "yr_portfolio (yearlyData (calculateYearByYearFinancials [] exampleScenario 1 0 2500 50
       [] 0 3) ! 0) = 49562
   \<and> yr_portfolio (yearlyData (calculateYearByYearFinancials [] exampleScenario 1 0 2500 50
       [\<lparr> ev_year = 1, ev_description = ''New car'', ev_type = ''one-time'', ev_amount = 60000 \<rparr>]
       0 3) ! 0) = 0
   \<and> yr_monthlyExpenses (yearlyData (calculateYearByYearFinancials [] exampleScenario 2 0 2500 50
       [] 0 3) ! 0) = 5073
   \<and> yr_monthlyExpenses (yearlyData (calculateYearByYearFinancials [] exampleScenario 2 0 2500 50
       [\<lparr> ev_year = 1, ev_description = ''Daycare'', ev_type = ''ongoing'', ev_amount = 6000 \<rparr>]
       0 3) ! 0) = 5073"
proof -
  have one: "[1..1] = [1::int]" by (simp add: upto_rec1)
  have a: "yr_portfolio (yearlyData (calculateYearByYearFinancials [] exampleScenario 1 0 2500 50
       [] 0 3) ! 0) = 49562"
    unfolding yearlyData_unfold one yearLoop_Cons
    by (simp add: yearStep_def Let_def exampleScenario_def eval_nat_numeral)
  have b: "yr_portfolio (yearlyData (calculateYearByYearFinancials [] exampleScenario 1 0 2500 50
       [\<lparr> ev_year = 1, ev_description = ''New car'', ev_type = ''one-time'', ev_amount = 60000 \<rparr>]
       0 3) ! 0) = 0"
    unfolding yearlyData_unfold one yearLoop_Cons
    by (simp add: yearStep_def Let_def exampleScenario_def eval_nat_numeral)
  have c: "yr_monthlyExpenses (yearlyData (calculateYearByYearFinancials [] exampleScenario 2 0 2500 50
       evs 0 3) ! 0) = 5073" for evs
    using expenses_year [of 1 2 "[]" exampleScenario 0 2500 50 evs 0 3]
    by (simp add: exampleScenario_def)
  show ?thesis using a b c by simp
qed

theorem C2_life_events_witness:
  "take 4 (yearlyData (calculateYearByYearFinancials [] exampleScenario 10 3 2500 50
       [\<lparr> ev_year = 5, ev_description = ''Wedding'', ev_type = ''one-time'', ev_amount = 10000 \<rparr>]
       8 3))
     = take 4 (yearlyData (calculateYearByYearFinancials [] exampleScenario 10 3 2500 50 [] 8 3))
   \<and> yr_portfolio (yearlyData (calculateYearByYearFinancials [] exampleScenario 10 3 2500 50
       [\<lparr> ev_year = 5, ev_description = ''Wedding'', ev_type = ''one-time'', ev_amount = 10000 \<rparr>]
       8 3) ! 4)
     = max 0 (yr_portfolio (yearlyData (calculateYearByYearFinancials [] exampleScenario 10 3 2500 50
         [] 8 3) ! 4) - 10000)
   \<and> map yr_monthlyExpenses (yearlyData (calculateYearByYearFinancials [] exampleScenario 10 3 2500 50
       [\<lparr> ev_year = 5, ev_description = ''Wedding'', ev_type = ''one-time'', ev_amount = 10000 \<rparr>]
       8 3))
     = map yr_monthlyExpenses (yearlyData (calculateYearByYearFinancials [] exampleScenario 10 3 2500 50
         [] 8 3))
   \<and> yr_monthlyExpenses (yearlyData (calculateYearByYearFinancials [] exampleScenario 10 3 2500 50
       [\<lparr> ev_year = 5, ev_description = ''Daycare'', ev_type = ''ongoing'', ev_amount = 6000 \<rparr>]
       8 3) ! 9)
     = yr_monthlyExpenses (yearlyData (calculateYearByYearFinancials [] exampleScenario 10 3 2500 50
         [] 8 3) ! 9) + 500"
proof -
  have a: "take 4 (yearlyData (calculateYearByYearFinancials [] exampleScenario 10 3 2500 50
       [\<lparr> ev_year = 5, ev_description = ''Wedding'', ev_type = ''one-time'', ev_amount = 10000 \<rparr>]
       8 3))
     = take 4 (yearlyData (calculateYearByYearFinancials [] exampleScenario 10 3 2500 50 [] 8 3))
   \<and> yr_portfolio (yearlyData (calculateYearByYearFinancials [] exampleScenario 10 3 2500 50
       [\<lparr> ev_year = 5, ev_description = ''Wedding'', ev_type = ''one-time'', ev_amount = 10000 \<rparr>]
       8 3) ! 4)
     = max 0 (yr_portfolio (yearlyData (calculateYearByYearFinancials [] exampleScenario 10 3 2500 50
         [] 8 3) ! 4) - 10000)
   \<and> map yr_monthlyExpenses (yearlyData (calculateYearByYearFinancials [] exampleScenario 10 3 2500 50
       [\<lparr> ev_year = 5, ev_description = ''Wedding'', ev_type = ''one-time'', ev_amount = 10000 \<rparr>]
       8 3))
     = map yr_monthlyExpenses (yearlyData (calculateYearByYearFinancials [] exampleScenario 10 3 2500 50
         [] 8 3))"
    using C2_life_events [of "\<lparr> ev_year = 5, ev_description = ''Wedding'', ev_type = ''one-time'',
                               ev_amount = 10000 \<rparr>" 10 "[]" exampleScenario 3 2500 50 "[]" "[]" 8 3]
    by simp
  have b: "yr_monthlyExpenses (yearlyData (calculateYearByYearFinancials [] exampleScenario 10 3 2500 50
       [\<lparr> ev_year = 5, ev_description = ''Daycare'', ev_type = ''ongoing'', ev_amount = 6000 \<rparr>]
       8 3) ! 9)
     = yr_monthlyExpenses (yearlyData (calculateYearByYearFinancials [] exampleScenario 10 3 2500 50
         [] 8 3) ! 9) + 500"
    using C2_life_events [of "\<lparr> ev_year = 5, ev_description = ''Daycare'', ev_type = ''ongoing'',
                               ev_amount = 6000 \<rparr>" 10 "[]" exampleScenario 3 2500 50 "[]" "[]" 8 3,
                           THEN conjunct2, rule_format, of 10]
    by simp
  show ?thesis using a b by blast
qed


end
